theory Spec2Isabelle
  imports Complex_Main
begin

section \<open>The user service (dockerfiles/user-service/app.py)\<close>

text \<open>
  A shallow embedding of the request handlers of \<^verbatim>\<open>app.py\<close>. The module's globals
  (the Prometheus metrics, the connection pool), the users table and the bytes written to
  the client form an explicit state; everything the outside world decides during one
  request (clock readings, whether a store call raises) is an \<open>env\<close> record.
  Strings are the Latin-1 strings \<^verbatim>\<open>http.server\<close> produces from the request line, one
  \<open>char\<close> per code point below 256.
\<close>

subsection \<open>Python values and string operations\<close>

datatype py_error =
  ValueError | TypeError | KeyError | JSONDecodeError | UnicodeDecodeError
  | PoolError | DatabaseError

text \<open>What \<^verbatim>\<open>json.loads\<close> returns; a dict is kept as its list of items.\<close>

datatype json =
  JNull | JBool bool | JInt int | JFloat string | JString string
  | JArray "json list" | JObject "(string \<times> json) list"

text \<open>\<^verbatim>\<open>s.startswith(pre)\<close>\<close>

definition startswith :: "string \<Rightarrow> string \<Rightarrow> bool" where
  "startswith s pre = (take (length pre) s = pre)"

text \<open>\<^verbatim>\<open>s.split(c)\<close> for a one-character separator: never empty, \<^verbatim>\<open>''.split('/') == ['']\<close>.\<close>

fun split_on :: "char \<Rightarrow> string \<Rightarrow> string list" where
  "split_on c [] = [[]]"
| "split_on c (x # xs) =
     (if x = c then [] # split_on c xs
      else (case split_on c xs of [] \<Rightarrow> [[x]] | w # ws \<Rightarrow> (x # w) # ws))"

text \<open>
  \<^verbatim>\<open>str.isdigit\<close> on a Latin-1 string: the string is not empty and every character has
  the Unicode property Digit. Below code point 256 these are \<^verbatim>\<open>0\<close> to \<^verbatim>\<open>9\<close> and the
  superscripts two, three and one (178, 179, 185).
\<close>

definition ascii_digit :: "char \<Rightarrow> bool" where
  "ascii_digit c = (48 \<le> (of_char c :: nat) \<and> (of_char c :: nat) \<le> 57)"

definition isdigit_char :: "char \<Rightarrow> bool" where
  "isdigit_char c =
     (ascii_digit c \<or> (of_char c :: nat) = 178 \<or> (of_char c :: nat) = 179
      \<or> (of_char c :: nat) = 185)"

definition isdigit :: "string \<Rightarrow> bool" where
  "isdigit s = (s \<noteq> [] \<and> list_all isdigit_char s)"

text \<open>
  \<^verbatim>\<open>int(s)\<close> for a string that passed \<^verbatim>\<open>isdigit\<close> (the only call with a string
  argument in the handlers): it accepts decimal digits only, so a superscript digit raises
  ValueError, and so does a string longer than \<^verbatim>\<open>sys.get_int_max_str_digits()\<close> when
  that limit is set (0 is no limit, as in interpreters that lack it).
\<close>

definition decimal_value :: "string \<Rightarrow> int" where
  "decimal_value s = foldl (\<lambda>a c. 10 * a + (int (of_char c) - 48)) 0 s"

definition py_int :: "nat \<Rightarrow> string \<Rightarrow> py_error + int" where
  "py_int max_str_digits s =
     (if s \<noteq> [] \<and> list_all ascii_digit s
         \<and> (max_str_digits = 0 \<or> length s \<le> max_str_digits)
      then Inr (decimal_value s) else Inl ValueError)"

text \<open>\<^verbatim>\<open>k in s\<close> for two strings: \<open>k\<close> occurs in \<open>s\<close> as a contiguous block.\<close>

fun substring :: "string \<Rightarrow> string \<Rightarrow> bool" where
  "substring k [] = (k = [])"
| "substring k (x # xs) = (startswith (x # xs) k \<or> substring k xs)"

text \<open>
  \<^verbatim>\<open>k in data\<close> for a string \<open>k\<close> and a parsed JSON value: key membership in a dict,
  element membership in a list, substring test in a string, TypeError otherwise.
\<close>

fun py_in :: "string \<Rightarrow> json \<Rightarrow> py_error + bool" where
  "py_in k (JObject kvs) = Inr (List.member (map fst kvs) k)"
| "py_in k (JArray xs) = Inr (List.member xs (JString k))"
| "py_in k (JString s) = Inr (substring k s)"
| "py_in k JNull = Inl TypeError"
| "py_in k (JBool b) = Inl TypeError"
| "py_in k (JInt i) = Inl TypeError"
| "py_in k (JFloat f) = Inl TypeError"

text \<open>\<^verbatim>\<open>data[k]\<close> for a string \<open>k\<close>.\<close>

fun py_getitem :: "json \<Rightarrow> string \<Rightarrow> py_error + json" where
  "py_getitem (JObject kvs) k =
     (case map_of kvs k of None \<Rightarrow> Inl KeyError | Some v \<Rightarrow> Inr v)"
| "py_getitem (JArray xs) k = Inl TypeError"
| "py_getitem (JString s) k = Inl TypeError"
| "py_getitem JNull k = Inl TypeError"
| "py_getitem (JBool b) k = Inl TypeError"
| "py_getitem (JInt i) k = Inl TypeError"
| "py_getitem (JFloat f) k = Inl TypeError"

subsection \<open>Timestamps\<close>

text \<open>A naive \<^verbatim>\<open>datetime\<close>, as \<^verbatim>\<open>datetime.now()\<close> and a TIMESTAMP column give.\<close>

record datetime =
  year :: nat
  month :: nat
  day :: nat
  hour :: nat
  minute :: nat
  second :: nat
  microsecond :: nat

fun show_nat :: "nat \<Rightarrow> string" where
  "show_nat n =
     (if n < 10 then [char_of (48 + n)]
      else show_nat (n div 10) @ [char_of (48 + n mod 10)])"

declare show_nat.simps [simp del]

text \<open>\<^verbatim>\<open>'%0wd' % n\<close>\<close>

definition zero_pad :: "nat \<Rightarrow> nat \<Rightarrow> string" where
  "zero_pad w n = replicate (w - length (show_nat n)) (CHR ''0'') @ show_nat n"

text \<open>\<^verbatim>\<open>d.isoformat()\<close>: the fraction is printed only when it is not zero.\<close>

definition isoformat :: "datetime \<Rightarrow> string" where
  "isoformat d =
     zero_pad 4 (year d) @ ''-'' @ zero_pad 2 (month d) @ ''-'' @ zero_pad 2 (day d)
     @ ''T'' @ zero_pad 2 (hour d) @ '':'' @ zero_pad 2 (minute d) @ '':''
     @ zero_pad 2 (second d)
     @ (if microsecond d = 0 then [] else ''.'' @ zero_pad 6 (microsecond d))"

text \<open>The ranges of the fields that the class \<^verbatim>\<open>datetime\<close> enforces.\<close>

definition valid_datetime :: "datetime \<Rightarrow> bool" where
  "valid_datetime d =
     (1 \<le> year d \<and> year d \<le> 9999 \<and> 1 \<le> month d \<and> month d \<le> 12 \<and> 1 \<le> day d
      \<and> day d \<le> 31 \<and> hour d < 24 \<and> minute d < 60 \<and> second d < 60
      \<and> microsecond d < 1000000)"

text \<open>The shape of a text: every decimal digit replaced by the digit 9.\<close>

definition digit_shape :: "string \<Rightarrow> string" where
  "digit_shape t = map (\<lambda>c. if ascii_digit c then CHR 0x39 else c) t"

subsection \<open>The state: metrics, pool, table, output\<close>

text \<open>A row of table \<^verbatim>\<open>users\<close>; \<^verbatim>\<open>created_at\<close> is the only nullable column.\<close>

record user_row =
  row_id :: int
  row_name :: string
  row_email :: string
  row_created_at :: "datetime option"

text \<open>
  The pool of \<^verbatim>\<open>psycopg2.pool.SimpleConnectionPool(1, 10, ...)\<close>: \<open>used\<close> is the
  number of leased connections, \<^verbatim>\<open>len(connection_pool._used)\<close>.
\<close>

record pool =
  maxconn :: nat
  used :: nat

datatype connection = Connection

datatype level = INFO | WARNING | ERROR

datatype event = Log level string | Sleep nat

record state =
  request_count :: "string \<times> string \<times> string \<Rightarrow> nat"
  request_latency :: "string \<Rightarrow> real list"
  users_count :: int
  db_connections :: int
  error_count :: "string \<Rightarrow> nat"
  connection_pool :: "pool option"
  users :: "user_row list"
  wfile :: "(nat \<times> json) list"
  trace :: "event list"

text \<open>
  The store calls a request makes. Each can raise for reasons outside the program (the
  server is gone, the table is missing); the environment says which do.
\<close>

datatype store_op =
  Cursor | SelectAll | SelectById | SelectByEmail | Insert | Commit | Rollback
  | CreateTable | CreateIndex

text \<open>
  What the outside world decides during one request or one start-up attempt:
  the two readings of \<^verbatim>\<open>time.time()\<close>, \<^verbatim>\<open>datetime.now()\<close>, the store's
  \<^verbatim>\<open>CURRENT_TIMESTAMP\<close> and next value of the \<^verbatim>\<open>SERIAL\<close> sequence, whether opening a
  connection fails, which store calls raise, what the driver and the store make of a
  bound parameter that is neither a string nor null, and the interpreter's limit on the
  digits of \<^verbatim>\<open>int(str)\<close>.
\<close>

record env =
  start_time :: real
  end_time :: real
  now :: datetime
  current_timestamp :: datetime
  serial_next :: int
  getconn_raises :: bool
  raises :: "store_op \<Rightarrow> bool"
  adapt_other :: "store_op \<Rightarrow> json \<Rightarrow> py_error + string option"
  int_max_str_digits :: nat

subsection \<open>Metrics and logging\<close>

text \<open>\<^verbatim>\<open>REQUEST_COUNT.labels(method=m, endpoint=ep, status=st).inc()\<close>\<close>

definition inc_request_count :: "string \<Rightarrow> string \<Rightarrow> string \<Rightarrow> state \<Rightarrow> state" where
  "inc_request_count m ep st s =
     s\<lparr>request_count := (request_count s)((m, ep, st) := request_count s (m, ep, st) + 1)\<rparr>"

text \<open>\<^verbatim>\<open>ERROR_COUNT.labels(type=t).inc()\<close>\<close>

definition inc_error_count :: "string \<Rightarrow> state \<Rightarrow> state" where
  "inc_error_count t s = s\<lparr>error_count := (error_count s)(t := error_count s t + 1)\<rparr>"

text \<open>\<^verbatim>\<open>REQUEST_LATENCY.labels(endpoint=ep).observe(v)\<close>\<close>

definition observe_latency :: "string \<Rightarrow> real \<Rightarrow> state \<Rightarrow> state" where
  "observe_latency ep v s =
     s\<lparr>request_latency := (request_latency s)(ep := request_latency s ep @ [v])\<rparr>"

text \<open>
  A call of \<^verbatim>\<open>logger\<close>; the text of a caught exception, which the source appends to
  some messages, is not part of the model.
\<close>

definition logger :: "level \<Rightarrow> string \<Rightarrow> state \<Rightarrow> state" where
  "logger l msg s = s\<lparr>trace := trace s @ [Log l msg]\<rparr>"

subsection \<open>The connection pool\<close>

text \<open>
  \<^verbatim>\<open>connection_pool.getconn()\<close>: PoolError when every connection is leased, the error
  of the failed connect when a new connection cannot be opened.
\<close>

definition getconn :: "env \<Rightarrow> pool \<Rightarrow> py_error + connection \<times> pool" where
  "getconn e p =
     (if maxconn p \<le> used p then Inl PoolError
      else if getconn_raises e then Inl DatabaseError
      else Inr (Connection, p\<lparr>used := used p + 1\<rparr>))"

definition putconn :: "pool \<Rightarrow> pool" where
  "putconn p = p\<lparr>used := used p - 1\<rparr>"

definition get_db_connection :: "env \<Rightarrow> state \<Rightarrow> connection option \<times> state" where
  "get_db_connection e s =
     (case connection_pool s of
        None \<Rightarrow> (None, s)
      | Some p \<Rightarrow>
          (case getconn e p of
             Inl err \<Rightarrow>
               (None, logger ERROR ''Failed to get DB connection: ''
                        (inc_error_count ''db_connection'' s))
           | Inr (c, p') \<Rightarrow> (Some c, s\<lparr>connection_pool := Some p'\<rparr>)))"

definition release_db_connection :: "connection option \<Rightarrow> state \<Rightarrow> state" where
  "release_db_connection conn s =
     (case connection_pool s of
        None \<Rightarrow> s
      | Some p \<Rightarrow>
          (case conn of
             None \<Rightarrow> s
           | Some c \<Rightarrow> s\<lparr>connection_pool := Some (putconn p)\<rparr>))"

text \<open>
  The module's top level: the pool is built once; when that fails the global is None for
  the life of the process.
\<close>

definition module_init :: "bool \<Rightarrow> user_row list \<Rightarrow> state" where
  "module_init pool_fails table =
     (let s = \<lparr>request_count = (\<lambda>k. 0), request_latency = (\<lambda>k. []), users_count = 0,
                db_connections = 0, error_count = (\<lambda>k. 0), connection_pool = None,
                users = table, wfile = [], trace = []\<rparr>
      in if pool_fails then logger ERROR ''Failed to create connection pool: '' s
         else logger INFO ''Database connection pool created''
                (s\<lparr>connection_pool := Some \<lparr>maxconn = 10, used = 0\<rparr>,
                   db_connections := 10\<rparr>))"

subsection \<open>The statements\<close>

text \<open>
  A parameter bound to a \<^verbatim>\<open>VARCHAR\<close> column. A JSON string is its text, unless it
  holds the character NUL, which the driver refuses with ValueError before anything is
  sent; null is NULL (\<open>None\<close>); for any other value the outcome is the environment's.
\<close>

fun bind_text :: "env \<Rightarrow> store_op \<Rightarrow> json \<Rightarrow> py_error + string option" where
  "bind_text e opn (JString t) =
     (if List.member t (CHR 0x00) then Inl ValueError else Inr (Some t))"
| "bind_text e opn JNull = Inr None"
| "bind_text e opn v = adapt_other e opn v"

text \<open>
  Storing a text in a \<^verbatim>\<open>VARCHAR(100)\<close> column: a text of more than 100 characters is
  an error, unless the characters beyond the first 100 are all spaces; then the first 100
  are stored.
\<close>

definition varchar100 :: "string \<Rightarrow> py_error + string" where
  "varchar100 t =
     (if length t \<le> 100 then Inr t
      else if list_all (\<lambda>c. c = CHR 0x20) (drop 100 t) then Inr (take 100 t)
      else Inl DatabaseError)"

text \<open>\<^verbatim>\<open>SELECT id, name, email, created_at FROM users LIMIT 100\<close>, then \<^verbatim>\<open>fetchall()\<close>\<close>

definition select_all :: "env \<Rightarrow> state \<Rightarrow> py_error + user_row list" where
  "select_all e s = (if raises e SelectAll then Inl DatabaseError else Inr (take 100 (users s)))"

text \<open>\<^verbatim>\<open>SELECT id, name, email, created_at FROM users WHERE id = %s\<close>, then \<^verbatim>\<open>fetchone()\<close>\<close>

definition select_by_id :: "env \<Rightarrow> state \<Rightarrow> int \<Rightarrow> py_error + user_row option" where
  "select_by_id e s i =
     (if raises e SelectById then Inl DatabaseError
      else Inr (find (\<lambda>r. row_id r = i) (users s)))"

text \<open>\<^verbatim>\<open>SELECT id FROM users WHERE email = %s\<close>, then \<^verbatim>\<open>fetchone()\<close>\<close>

definition select_by_email :: "env \<Rightarrow> state \<Rightarrow> json \<Rightarrow> py_error + int option" where
  "select_by_email e s v =
     (if raises e SelectByEmail then Inl DatabaseError
      else (case bind_text e SelectByEmail v of
              Inl err \<Rightarrow> Inl err
            | Inr None \<Rightarrow> Inr None
            | Inr (Some t) \<Rightarrow>
                Inr (map_option row_id (find (\<lambda>r. row_email r = t) (users s)))))"

text \<open>
  \<^verbatim>\<open>INSERT INTO users (name, email) VALUES (%s, %s) RETURNING id, created_at\<close> on the
  table of \<^verbatim>\<open>init_database\<close>: both columns are \<^verbatim>\<open>VARCHAR(100) NOT NULL\<close>, \<^verbatim>\<open>email\<close> is
  \<^verbatim>\<open>UNIQUE\<close>, \<^verbatim>\<open>id\<close> is the primary key. The result is the new row, not yet committed;
  the response repeats the values of the request, not the stored ones.
\<close>

definition insert_user :: "env \<Rightarrow> state \<Rightarrow> json \<Rightarrow> json \<Rightarrow> py_error + user_row" where
  "insert_user e s vn ve =
     (if raises e Insert then Inl DatabaseError
      else (case bind_text e Insert vn of
              Inl err \<Rightarrow> Inl err
            | Inr None \<Rightarrow> Inl DatabaseError
            | Inr (Some n) \<Rightarrow>
               (case bind_text e Insert ve of
                  Inl err \<Rightarrow> Inl err
                | Inr None \<Rightarrow> Inl DatabaseError
                | Inr (Some m) \<Rightarrow>
                   (case varchar100 n of
                      Inl err \<Rightarrow> Inl err
                    | Inr n' \<Rightarrow>
                       (case varchar100 m of
                          Inl err \<Rightarrow> Inl err
                        | Inr m' \<Rightarrow>
                            if List.member (map row_email (users s)) m'
                               \<or> List.member (map row_id (users s)) (serial_next e)
                            then Inl DatabaseError
                            else Inr \<lparr>row_id = serial_next e, row_name = n', row_email = m',
                                      row_created_at = Some (current_timestamp e)\<rparr>)))))"

subsection \<open>UserHandler\<close>

definition send_response :: "json \<Rightarrow> nat \<Rightarrow> state \<Rightarrow> state" where
  "send_response data status s = s\<lparr>wfile := wfile s @ [(status, data)]\<rparr>"

definition send_error :: "string \<Rightarrow> nat \<Rightarrow> state \<Rightarrow> state" where
  "send_error message status s =
     send_response (JObject [(''error'', JString message)]) status
       (inc_error_count ''http_error'' s)"

text \<open>The dict built from a row: \<^verbatim>\<open>row[3].isoformat() if row[3] else None\<close>.\<close>

definition user_json :: "user_row \<Rightarrow> json" where
  "user_json r =
     JObject [(''id'', JInt (row_id r)), (''name'', JString (row_name r)),
              (''email'', JString (row_email r)),
              (''created_at'',
                 (case row_created_at r of None \<Rightarrow> JNull
                  | Some d \<Rightarrow> JString (isoformat d)))]"

text \<open>The \<^verbatim>\<open>try\<close> block of the \<^verbatim>\<open>/health\<close> branch.\<close>

definition health :: "env \<Rightarrow> state \<Rightarrow> state" where
  "health e s =
     (let s1 = inc_request_count ''GET'' ''/health'' ''200'' s;
          db_status = (case connection_pool s1 of None \<Rightarrow> ''disconnected''
                       | Some p \<Rightarrow> ''connected'')
      in send_response
           (JObject [(''status'', JString ''healthy''), (''service'', JString ''user-service''),
                     (''timestamp'', JString (isoformat (now e))),
                     (''database'', JString db_status), (''version'', JString ''1.0.0'')])
           200 s1)"

text \<open>The inner \<^verbatim>\<open>try\<close>/\<^verbatim>\<open>except\<close> of the \<^verbatim>\<open>/users\<close> branch, with a leased connection.\<close>

definition list_users_failed :: "state \<Rightarrow> state" where
  "list_users_failed s =
     send_error ''Internal server error'' 500 (logger ERROR ''Failed to fetch users: '' s)"

definition list_users :: "env \<Rightarrow> state \<Rightarrow> state" where
  "list_users e s =
     (if raises e Cursor then list_users_failed s
      else (case select_all e s of
              Inl err \<Rightarrow> list_users_failed s
            | Inr rows \<Rightarrow>
                (let us = map user_json rows;
                     s1 = send_response
                            (JObject [(''users'', JArray us), (''count'', JInt (int (length us))),
                                      (''timestamp'', JString (isoformat (now e)))])
                            200 s
                 in s1\<lparr>users_count := int (length us)\<rparr>)))"

text \<open>The inner \<^verbatim>\<open>try\<close>/\<^verbatim>\<open>except\<close> of the \<^verbatim>\<open>/users/\<close> branch; \<^verbatim>\<open>int(user_id)\<close> is inside it.\<close>

definition get_user_failed :: "string \<Rightarrow> state \<Rightarrow> state" where
  "get_user_failed user_id s =
     send_error ''Internal server error'' 500
       (logger ERROR (''Failed to fetch user '' @ user_id @ '': '') s)"

definition get_user :: "env \<Rightarrow> string \<Rightarrow> state \<Rightarrow> state" where
  "get_user e user_id s =
     (if raises e Cursor then get_user_failed user_id s
      else (case py_int (int_max_str_digits e) user_id of
              Inl err \<Rightarrow> get_user_failed user_id s
            | Inr i \<Rightarrow>
               (case select_by_id e s i of
                  Inl err \<Rightarrow> get_user_failed user_id s
                | Inr None \<Rightarrow> send_error ''User not found'' 404 s
                | Inr (Some r) \<Rightarrow> send_response (user_json r) 200 s)))"

text \<open>The outer \<^verbatim>\<open>try\<close> block of \<^verbatim>\<open>do_GET\<close>.\<close>

definition do_GET_try :: "env \<Rightarrow> string \<Rightarrow> state \<Rightarrow> state" where
  "do_GET_try e path s =
     (if path = ''/health'' then health e s
      else if path = ''/users'' then
        (let s1 = inc_request_count ''GET'' ''/users'' ''200'' s
         in (case get_db_connection e s1 of
               (None, s2) \<Rightarrow> send_error ''Database unavailable'' 503 s2
             | (Some c, s2) \<Rightarrow> release_db_connection (Some c) (list_users e s2)))
      else if startswith path ''/users/'' then
        (let user_id = last (split_on (CHR ''/'') path);
             s1 = inc_request_count ''GET'' ''/users/{id}'' ''200'' s
         in if \<not> isdigit user_id then send_error ''Invalid user ID'' 400 s1
            else (case get_db_connection e s1 of
                    (None, s2) \<Rightarrow> send_error ''Database unavailable'' 503 s2
                  | (Some c, s2) \<Rightarrow> release_db_connection (Some c) (get_user e user_id s2)))
      else send_error ''Not found'' 404 (inc_request_count ''GET'' ''unknown'' ''404'' s))"

text \<open>\<^verbatim>\<open>do_GET\<close>: the \<^verbatim>\<open>finally\<close> clause runs on every path through the block.\<close>

definition do_GET :: "env \<Rightarrow> string \<Rightarrow> state \<Rightarrow> state" where
  "do_GET e path s =
     observe_latency (hd (split_on (CHR ''?'') path)) (end_time e - start_time e)
       (do_GET_try e path s)"

text \<open>
  A POST request: the path, the value of
  \<^verbatim>\<open>int(self.headers.get('Content-Length', 0))\<close> (\<open>Inr 0\<close> when the header is absent,
  \<open>Inl ValueError\<close> when it is not a number) and the value of
  \<^verbatim>\<open>json.loads(post_data.decode('utf-8'))\<close> on the bytes read.
\<close>

record request =
  path :: string
  content_length :: "py_error + int"
  body_json :: "py_error + json"

text \<open>\<^verbatim>\<open>'name' not in data or 'email' not in data\<close>\<close>

definition missing_fields :: "json \<Rightarrow> py_error + bool" where
  "missing_fields data =
     (case py_in ''name'' data of
        Inl err \<Rightarrow> Inl err
      | Inr False \<Rightarrow> Inr True
      | Inr True \<Rightarrow>
          (case py_in ''email'' data of Inl err \<Rightarrow> Inl err | Inr b \<Rightarrow> Inr (\<not> b)))"

text \<open>
  The \<^verbatim>\<open>except Exception\<close> clause of the create branch: when \<^verbatim>\<open>conn.rollback()\<close>
  raises, the exception leaves the handler and nothing is sent.
\<close>

definition create_user_failed :: "env \<Rightarrow> state \<Rightarrow> py_error option \<times> state" where
  "create_user_failed e s =
     (if raises e Rollback then (Some DatabaseError, s)
      else (None, send_error ''Internal server error'' 500
                    (logger ERROR ''Failed to create user: '' s)))"

text \<open>The inner \<^verbatim>\<open>try\<close>/\<^verbatim>\<open>except\<close> of the create branch, with a leased connection.\<close>

definition create_user :: "env \<Rightarrow> json \<Rightarrow> state \<Rightarrow> py_error option \<times> state" where
  "create_user e data s =
     (if raises e Cursor then create_user_failed e s
      else (case py_getitem data ''email'' of
         Inl err \<Rightarrow> create_user_failed e s
       | Inr ve \<Rightarrow>
          (case select_by_email e s ve of
             Inl err \<Rightarrow> create_user_failed e s
           | Inr (Some i) \<Rightarrow> (None, send_error ''Email already exists'' 409 s)
           | Inr None \<Rightarrow>
              (case py_getitem data ''name'' of
                 Inl err \<Rightarrow> create_user_failed e s
               | Inr vn \<Rightarrow>
                  (case insert_user e s vn ve of
                     Inl err \<Rightarrow> create_user_failed e s
                   | Inr r \<Rightarrow>
                      if raises e Commit then create_user_failed e s
                      else
                        (let s1 = s\<lparr>users := users s @ [r]\<rparr>;
                             s2 = inc_request_count ''POST'' ''/users'' ''201'' s1;
                             s3 = send_response
                                    (JObject [(''id'', JInt (row_id r)), (''name'', vn),
                                       (''email'', ve),
                                       (''created_at'', JString (isoformat (current_timestamp e))),
                                       (''message'', JString ''User created successfully''),
                                       (''timestamp'', JString (isoformat (now e)))])
                                    201 s2
                         in (None, s3\<lparr>users_count := users_count s3 + 1\<rparr>)))))))"

text \<open>
  The outer \<^verbatim>\<open>try\<close> block of \<^verbatim>\<open>do_POST\<close>. The first component is the exception
  that leaves the handler, if any; then no response has been written.
\<close>

definition do_POST_try :: "env \<Rightarrow> request \<Rightarrow> state \<Rightarrow> py_error option \<times> state" where
  "do_POST_try e req s =
     (if path req = ''/users'' then
        (case content_length req of
           Inl err \<Rightarrow> (Some err, s)
         | Inr n \<Rightarrow>
            if n = 0 then (None, send_error ''Empty request body'' 400 s)
            else
              (case body_json req of
                 Inl err \<Rightarrow>
                   if err = JSONDecodeError then (None, send_error ''Invalid JSON'' 400 s)
                   else (Some err, s)
               | Inr data \<Rightarrow>
                  (case missing_fields data of
                     Inl err \<Rightarrow> (Some err, s)
                   | Inr True \<Rightarrow> (None, send_error ''Name and email are required'' 400 s)
                   | Inr False \<Rightarrow>
                      (case get_db_connection e s of
                         (None, s1) \<Rightarrow> (None, send_error ''Database unavailable'' 503 s1)
                       | (Some c, s1) \<Rightarrow>
                           (case create_user e data s1 of
                              (exc, s2) \<Rightarrow> (exc, release_db_connection (Some c) s2))))))
      else (None, send_error ''Not found'' 404
                    (inc_request_count ''POST'' ''unknown'' ''404'' s)))"

definition do_POST :: "env \<Rightarrow> request \<Rightarrow> state \<Rightarrow> py_error option \<times> state" where
  "do_POST e req s =
     (case do_POST_try e req s of
        (exc, s1) \<Rightarrow> (exc, observe_latency (path req) (end_time e - start_time e) s1))"

subsection \<open>Start-up\<close>









subsection \<open>Concrete inputs\<close>

text \<open>
  An environment in which no call fails, a table of two rows and the state the module
  starts in over that table; the statements below are evaluated on them.
\<close>

definition quiet_env :: env where
  "quiet_env =
     \<lparr>start_time = 10, end_time = 12,
      now = \<lparr>year = 2024, month = 5, day = 17, hour = 9, minute = 30, second = 0,
             microsecond = 0\<rparr>,
      current_timestamp = \<lparr>year = 2024, month = 5, day = 17, hour = 9, minute = 29,
             second = 59, microsecond = 250\<rparr>,
      serial_next = 3, getconn_raises = False, raises = (\<lambda>opn. False),
      adapt_other = (\<lambda>opn v. Inl DatabaseError), int_max_str_digits = 4300\<rparr>"

definition two_users :: "user_row list" where
  "two_users =
     [\<lparr>row_id = 1, row_name = ''Ann'', row_email = ''ann@example.org'',
       row_created_at = Some \<lparr>year = 2024, month = 1, day = 2, hour = 3, minute = 4,
                              second = 5, microsecond = 0\<rparr>\<rparr>,
      \<lparr>row_id = 2, row_name = ''Bob'', row_email = ''bob@example.org'',
       row_created_at = None\<rparr>]"

definition started :: state where
  "started = module_init False two_users"



section \<open>Properties\<close>

subsection \<open>Auxiliary facts\<close>

lemmas prim_defs = send_response_def send_error_def inc_request_count_def inc_error_count_def
  logger_def observe_latency_def release_db_connection_def get_db_connection_def getconn_def
  putconn_def

lemma started_simps:
  "connection_pool started = Some \<lparr>maxconn = 10, used = 0\<rparr>"
  "wfile started = []" "users started = two_users"
  "request_latency started = (\<lambda>k. [])" "request_count started = (\<lambda>k. 0)"
  "error_count started = (\<lambda>k. 0)" "users_count started = 0"
  by (simp_all add: started_def module_init_def logger_def)

lemma quiet_env_simps:
  "start_time quiet_env = 10" "end_time quiet_env = 12" "serial_next quiet_env = 3"
  "getconn_raises quiet_env = False" "raises quiet_env = (\<lambda>opn. False)"
  "adapt_other quiet_env = (\<lambda>opn v. Inl DatabaseError)" "int_max_str_digits quiet_env = 4300"
  by (simp_all add: quiet_env_def)

lemmas fixture_simps = started_simps quiet_env_simps

lemma split_on_not_Nil: "split_on c s \<noteq> []"
  by (induction s) (auto split: list.splits)

lemma hd_split_on: "hd (split_on c s) = takeWhile (\<lambda>x. x \<noteq> c) s"
  by (induction s) (auto split: list.splits simp: split_on_not_Nil)

subsection \<open>Latency observations\<close>

lemma latency_get_try: "request_latency (do_GET_try e p s) = request_latency s"
  by (auto simp: do_GET_try_def health_def list_users_def list_users_failed_def get_user_def
      get_user_failed_def select_all_def select_by_id_def prim_defs Let_def
      split: sum.splits option.splits prod.splits if_splits)

lemma latency_create: "request_latency (snd (create_user e d s)) = request_latency s"
  by (auto simp: create_user_def create_user_failed_def prim_defs Let_def
      split: sum.splits option.splits prod.splits if_splits)

lemma latency_get_conn: "request_latency (snd (get_db_connection e s)) = request_latency s"
  by (auto simp: prim_defs split: sum.splits option.splits prod.splits if_splits)

lemma latency_release: "request_latency (release_db_connection c s) = request_latency s"
  by (auto simp: prim_defs split: sum.splits option.splits prod.splits if_splits)

lemma latency_send_error: "request_latency (send_error m st s) = request_latency s"
  by (auto simp: prim_defs)

lemma latency_post_try: "request_latency (snd (do_POST_try e r s)) = request_latency s"
  by (simp add: do_POST_try_def split_beta latency_release latency_send_error
      inc_request_count_def latency_create latency_get_conn
      split: sum.splits option.splits bool.splits)

text \<open>
  Claim C8. Every request that \<open>do_GET\<close> or \<open>do_POST\<close> handles, whatever its outcome
  (an exception that leaves \<open>do_POST\<close> included), adds exactly one observation to the
  latency histogram, the difference of the two clock readings. For GET the label is the
  path up to the first question mark, for POST it is the path as received.
\<close>

theorem latency_observed_once:
  "request_latency (do_GET e p s) =
     (request_latency s)(takeWhile (\<lambda>c. c \<noteq> CHR ''?'') p :=
        request_latency s (takeWhile (\<lambda>c. c \<noteq> CHR ''?'') p) @ [end_time e - start_time e])
   \<and> request_latency (snd (do_POST e r s)) =
     (request_latency s)(path r := request_latency s (path r) @ [end_time e - start_time e])"
  by (simp add: do_GET_def do_POST_def observe_latency_def latency_get_try hd_split_on
       split_beta latency_post_try)

theorem latency_observed_once_witness:
  "request_latency (do_GET quiet_env ''/users?limit=5'' started) ''/users'' = [2]
   \<and> request_latency (do_GET quiet_env ''/users?limit=5'' started) ''/users?limit=5'' = []
   \<and> request_latency
        (snd (do_POST quiet_env
           \<lparr>path = ''/users?limit=5'', content_length = Inr 0, body_json = Inl JSONDecodeError\<rparr>
           started)) ''/users?limit=5'' = [2]"
  using latency_observed_once [of quiet_env "''/users?limit=5''" started
      "\<lparr>path = ''/users?limit=5'', content_length = Inr 0, body_json = Inl JSONDecodeError\<rparr>"]
  by (simp add: fixture_simps)

subsection \<open>Leased connections\<close>

lemma pool_create: "connection_pool (snd (create_user e d s)) = connection_pool s"
  by (auto simp: create_user_def create_user_failed_def prim_defs Let_def
      split: sum.splits option.splits prod.splits if_splits)

lemma pool_list_users: "connection_pool (list_users e s) = connection_pool s"
  by (auto simp: list_users_def list_users_failed_def select_all_def prim_defs Let_def
      split: sum.splits)

lemma pool_get_user: "connection_pool (get_user e u s) = connection_pool s"
  by (auto simp: get_user_def get_user_failed_def select_by_id_def prim_defs Let_def
      split: sum.splits option.splits)

lemma pool_send_error: "connection_pool (send_error m st s) = connection_pool s"
  by (simp add: prim_defs)

lemma pool_inc_request: "connection_pool (inc_request_count m ep st s) = connection_pool s"
  by (simp add: prim_defs)

lemma pool_logger: "connection_pool (logger l m s) = connection_pool s"
  by (simp add: prim_defs)

lemma pool_health: "connection_pool (health e s) = connection_pool s"
  by (simp add: health_def prim_defs Let_def)

lemma get_db_connection_None:
  "fst (get_db_connection e s) = None \<Longrightarrow>
     connection_pool (snd (get_db_connection e s)) = connection_pool s"
  by (auto simp: prim_defs split: option.splits sum.splits if_splits)

lemma get_db_connection_Some:
  "fst (get_db_connection e s) = Some c \<Longrightarrow>
     \<exists>p. connection_pool s = Some p \<and> used p < maxconn p \<and> \<not> getconn_raises e
       \<and> snd (get_db_connection e s) = s\<lparr>connection_pool := Some (p\<lparr>used := used p + 1\<rparr>)\<rparr>"
  by (auto simp: prim_defs split: option.splits sum.splits if_splits)

lemma release_after:
  assumes "fst (get_db_connection e s) = Some c"
    and "connection_pool s' = connection_pool (snd (get_db_connection e s))"
  shows "connection_pool (release_db_connection (Some c) s') = connection_pool s"
proof -
  obtain p where p: "connection_pool s = Some p"
    "snd (get_db_connection e s) = s\<lparr>connection_pool := Some (p\<lparr>used := used p + 1\<rparr>)\<rparr>"
    using get_db_connection_Some[OF assms(1)] by blast
  then show ?thesis using assms(2)
    by (simp add: release_db_connection_def putconn_def)
qed

lemma pool_get_try: "connection_pool (do_GET_try e p s) = connection_pool s"
proof -
  have a: "connection_pool (case get_db_connection e s1 of
               (None, s2) \<Rightarrow> send_error m st s2
             | (Some c, s2) \<Rightarrow> release_db_connection (Some c) (f s2)) = connection_pool s1"
    if "\<And>s2. connection_pool (f s2) = connection_pool s2" for s1 m st f
  proof (cases "fst (get_db_connection e s1)")
    case None
    then show ?thesis
      using get_db_connection_None[of e s1] by (simp add: split_beta pool_send_error)
  next
    case (Some c)
    then show ?thesis
      using release_after[OF Some, of "f (snd (get_db_connection e s1))"] that
      by (simp add: split_beta)
  qed
  show ?thesis
    unfolding do_GET_try_def Let_def
    by (simp add: a pool_list_users pool_get_user pool_send_error pool_inc_request pool_health)
qed

lemma pool_post_try: "connection_pool (snd (do_POST_try e r s)) = connection_pool s"
proof -
  have a: "connection_pool (snd (case get_db_connection e s of
               (None, s1) \<Rightarrow> (None, send_error m st s1)
             | (Some c, s1) \<Rightarrow> (case create_user e d s1 of
                              (exc, s2) \<Rightarrow> (exc, release_db_connection (Some c) s2))))
           = connection_pool s"
    for m st d
  proof (cases "fst (get_db_connection e s)")
    case None
    then show ?thesis
      using get_db_connection_None[of e s] by (simp add: split_beta pool_send_error)
  next
    case (Some c)
    then show ?thesis
      using release_after[OF Some, of "snd (create_user e d (snd (get_db_connection e s)))"]
      by (simp add: split_beta pool_create)
  qed
  show ?thesis
    unfolding do_POST_try_def
    by (simp add: a pool_send_error pool_inc_request split: sum.splits bool.splits)
qed

lemma pool_do_GET: "connection_pool (do_GET e p s) = connection_pool s"
  by (simp add: do_GET_def observe_latency_def pool_get_try)

lemma pool_do_POST: "connection_pool (snd (do_POST e r s)) = connection_pool s"
  by (simp add: do_POST_def observe_latency_def split_beta pool_post_try)

text \<open>
  Claim C6. When a connection can be acquired (\<open>get_db_connection\<close> returns one, which
  raises the pool's count of leased connections by one), every request leaves the pool as
  it found it: whatever the path, the body and the store's failures, the connection a
  handler leased has been returned when the handler ends, so the leased count after the
  operation is the leased count before it.
\<close>

theorem connection_released:
  assumes "fst (get_db_connection e s) = Some c"
  shows "(\<exists>p. connection_pool s = Some p
            \<and> connection_pool (snd (get_db_connection e s)) = Some (p\<lparr>used := used p + 1\<rparr>))
         \<and> connection_pool (do_GET e pth s) = connection_pool s
         \<and> connection_pool (snd (do_POST e r s)) = connection_pool s"
  using get_db_connection_Some[OF assms] by (auto simp: pool_do_GET pool_do_POST)

theorem connection_released_witness:
  "fst (get_db_connection quiet_env started) = Some Connection
   \<and> connection_pool (snd (get_db_connection quiet_env started)) = Some \<lparr>maxconn = 10, used = 1\<rparr>
   \<and> connection_pool (do_GET quiet_env ''/users/1'' started) = Some \<lparr>maxconn = 10, used = 0\<rparr>
   \<and> connection_pool (snd (do_POST quiet_env
        \<lparr>path = ''/users'', content_length = Inr 2, body_json = Inr (JObject [])\<rparr> started))
       = Some \<lparr>maxconn = 10, used = 0\<rparr>"
proof -
  have h: "fst (get_db_connection quiet_env started) = Some Connection"
    by (simp add: fixture_simps get_db_connection_def getconn_def)
  show ?thesis
    using h connection_released [OF h, of "''/users/1''"
        "\<lparr>path = ''/users'', content_length = Inr 2, body_json = Inr (JObject [])\<rparr>"]
    by (simp add: fixture_simps)
qed

subsection \<open>Health check\<close>

text \<open>
  Claim C9. \<open>GET /health\<close> always answers 200; the field \<open>database\<close> is
  \<open>connected\<close> when the pool object exists and \<open>disconnected\<close> when it is None. The
  answer depends on nothing else but the clock: two runs with the same clock reading and
  the same pool-construction outcome send the same response, whatever the store does
  (which calls raise, whether a connection can be opened, what the table holds).
\<close>

theorem health_shallow:
  "wfile (do_GET e ''/health'' s) =
     wfile s @ [(200, JObject [(''status'', JString ''healthy''),
        (''service'', JString ''user-service''),
        (''timestamp'', JString (isoformat (now e))),
        (''database'', JString (if connection_pool s = None then ''disconnected''
                                else ''connected'')),
        (''version'', JString ''1.0.0'')])]
   \<and> (now e1 = now e2 \<longrightarrow> (connection_pool s1 = None) = (connection_pool s2 = None) \<longrightarrow>
        last (wfile (do_GET e1 ''/health'' s1)) = last (wfile (do_GET e2 ''/health'' s2)))"
  by (auto simp: do_GET_def do_GET_try_def health_def prim_defs Let_def split: option.splits)

theorem health_shallow_witness:
  "wfile (do_GET quiet_env ''/health'' started) =
     [(200, JObject [(''status'', JString ''healthy''),
        (''service'', JString ''user-service''),
        (''timestamp'', JString (isoformat (now quiet_env))),
        (''database'', JString ''connected''),
        (''version'', JString ''1.0.0'')])]
   \<and> last (wfile (do_GET quiet_env ''/health'' started)) =
      last (wfile (do_GET (quiet_env\<lparr>getconn_raises := True, raises := (\<lambda>opn. True)\<rparr>)
                     ''/health'' (started\<lparr>users := []\<rparr>)))"
  using health_shallow [of quiet_env started quiet_env
      "quiet_env\<lparr>getconn_raises := True, raises := (\<lambda>opn. True)\<rparr>" started
      "started\<lparr>users := []\<rparr>"]
  by (auto simp add: fixture_simps)

subsection \<open>The ISO form of a timestamp\<close>

lemma ascii_digit_char_of: "k < 10 \<Longrightarrow> ascii_digit (char_of (48 + k :: nat))"
  by (simp add: ascii_digit_def)

lemma of_char_digit: "k < 10 \<Longrightarrow> of_char (char_of (48 + k :: nat)) = 48 + k"
  by simp

lemma show_nat_digits: "list_all ascii_digit (show_nat n)"
proof (induction n rule: show_nat.induct)
  case (1 n)
  show ?case
  proof (cases "n < 10")
    case True
    then show ?thesis
      by (subst show_nat.simps) (simp add: ascii_digit_char_of)
  next
    case False
    then show ?thesis
      using 1 by (subst show_nat.simps) (simp add: ascii_digit_char_of)
  qed
qed

lemma decimal_value_snoc:
  "decimal_value (xs @ [c]) = 10 * decimal_value xs + (int (of_char c) - 48)"
  by (simp add: decimal_value_def)

lemma decimal_value_show_nat: "decimal_value (show_nat n) = int n"
proof (induction n rule: show_nat.induct)
  case (1 n)
  show ?case
  proof (cases "n < 10")
    case True
    then show ?thesis
      by (subst show_nat.simps) (simp add: decimal_value_def)
  next
    case False
    have "of_char (char_of (48 + n mod 10)) = 48 + n mod 10"
      by (rule of_char_digit) simp
    then show ?thesis
      using False 1 by (subst show_nat.simps) (simp add: decimal_value_snoc zdiv_int zmod_int)
  qed
qed

lemma show_nat_length: "n < 10 ^ w \<Longrightarrow> 0 < w \<Longrightarrow> length (show_nat n) \<le> w"
proof (induction n arbitrary: w rule: show_nat.induct)
  case (1 n)
  show ?case
  proof (cases "n < 10")
    case True
    then show ?thesis
      using 1(3) by (subst show_nat.simps) simp
  next
    case False
    then obtain v where v: "w = Suc v"
      using 1(3) by (cases w) auto
    have "0 < v"
      using False 1(2) v by (cases v) auto
    moreover have "n div 10 < 10 ^ v"
      using 1(2) v by (simp add: less_mult_imp_div_less mult.commute)
    ultimately have "length (show_nat (n div 10)) \<le> v"
      using 1(1)[OF False] by blast
    then show ?thesis
      using False v by (subst show_nat.simps) simp
  qed
qed

lemma decimal_value_zeros: "decimal_value (replicate k (CHR ''0'') @ xs) = decimal_value xs"
proof -
  have "foldl (\<lambda>a c. 10 * a + (int (of_char c) - 48)) 0 (replicate k (CHR ''0'')) = 0"
    by (induction k) simp_all
  then show ?thesis
    by (simp add: decimal_value_def)
qed

lemma zero_pad_facts:
  assumes "n < 10 ^ w" "0 < w"
  shows "length (zero_pad w n) = w" "digit_shape (zero_pad w n) = replicate w (CHR ''9'')"
    "decimal_value (zero_pad w n) = int n"
proof -
  have l: "length (show_nat n) \<le> w"
    using assms by (rule show_nat_length)
  show len: "length (zero_pad w n) = w"
    using l by (simp add: zero_pad_def)
  have "list_all ascii_digit (zero_pad w n)"
    using show_nat_digits[of n] by (auto simp: zero_pad_def list_all_iff ascii_digit_def)
  then have "digit_shape (zero_pad w n) = replicate (length (zero_pad w n)) (CHR ''9'')"
    by (induction "zero_pad w n") (auto simp: digit_shape_def list_all_iff map_replicate_const
        intro!: map_idI replicate_eqI)
  then show "digit_shape (zero_pad w n) = replicate w (CHR ''9'')"
    using len by simp
  show "decimal_value (zero_pad w n) = int n"
    by (simp add: zero_pad_def decimal_value_zeros decimal_value_show_nat)
qed

lemma replicate_small:
  "replicate 2 x = [x, x]" "replicate 4 x = [x, x, x, x]" "replicate 6 x = [x, x, x, x, x, x]"
  by (simp_all add: numeral_eq_Suc)

text \<open>
  For a timestamp within the ranges of the class, \<open>isoformat\<close> gives the extended ISO
  8601 form \<^verbatim>\<open>YYYY-MM-DDTHH:MM:SS\<close>, followed by a point and six digits of
  microseconds when these are not zero, and each group of digits is the decimal numeral
  of its field.
\<close>

lemma isoformat_iso8601:
  assumes "valid_datetime d"
  shows "digit_shape (isoformat d) =
           (if microsecond d = 0 then ''9999-99-99T99:99:99''
            else ''9999-99-99T99:99:99.999999'')
     \<and> decimal_value (take 4 (isoformat d)) = int (year d)
     \<and> decimal_value (take 2 (drop 5 (isoformat d))) = int (month d)
     \<and> decimal_value (take 2 (drop 8 (isoformat d))) = int (day d)
     \<and> decimal_value (take 2 (drop 11 (isoformat d))) = int (hour d)
     \<and> decimal_value (take 2 (drop 14 (isoformat d))) = int (minute d)
     \<and> decimal_value (take 2 (drop 17 (isoformat d))) = int (second d)
     \<and> (microsecond d \<noteq> 0 \<longrightarrow>
          decimal_value (drop 20 (isoformat d)) = int (microsecond d))"
proof -
  define Y where "Y = zero_pad 4 (year d)"
  define M where "M = zero_pad 2 (month d)"
  define D where "D = zero_pad 2 (day d)"
  define h where "h = zero_pad 2 (hour d)"
  define m where "m = zero_pad 2 (minute d)"
  define s where "s = zero_pad 2 (second d)"
  define f where "f = zero_pad 6 (microsecond d)"
  have Y: "length Y = 4" "digit_shape Y = ''9999''" "decimal_value Y = int (year d)"
    using zero_pad_facts[of "year d" 4] assms
    by (simp_all add: Y_def valid_datetime_def replicate_small)
  have M: "length M = 2" "digit_shape M = ''99''" "decimal_value M = int (month d)"
    using zero_pad_facts[of "month d" 2] assms
    by (simp_all add: M_def valid_datetime_def replicate_small)
  have D: "length D = 2" "digit_shape D = ''99''" "decimal_value D = int (day d)"
    using zero_pad_facts[of "day d" 2] assms
    by (simp_all add: D_def valid_datetime_def replicate_small)
  have h: "length h = 2" "digit_shape h = ''99''" "decimal_value h = int (hour d)"
    using zero_pad_facts[of "hour d" 2] assms
    by (simp_all add: h_def valid_datetime_def replicate_small)
  have m: "length m = 2" "digit_shape m = ''99''" "decimal_value m = int (minute d)"
    using zero_pad_facts[of "minute d" 2] assms
    by (simp_all add: m_def valid_datetime_def replicate_small)
  have s: "length s = 2" "digit_shape s = ''99''" "decimal_value s = int (second d)"
    using zero_pad_facts[of "second d" 2] assms
    by (simp_all add: s_def valid_datetime_def replicate_small)
  have f: "length f = 6" "digit_shape f = ''999999''" "decimal_value f = int (microsecond d)"
    using zero_pad_facts[of "microsecond d" 6] assms
    by (simp_all add: f_def valid_datetime_def replicate_small)
  have iso: "isoformat d =
      Y @ ''-'' @ M @ ''-'' @ D @ ''T'' @ h @ '':'' @ m @ '':'' @ s
        @ (if microsecond d = 0 then [] else ''.'' @ f)"
    by (simp add: isoformat_def Y_def M_def D_def h_def m_def s_def f_def)
  have app: "digit_shape (xs @ ys) = digit_shape xs @ digit_shape ys" for xs ys
    by (simp add: digit_shape_def)
  have seps: "digit_shape ''-'' = ''-''" "digit_shape ''T'' = ''T''" "digit_shape '':'' = '':''"
    "digit_shape ''.'' = ''.''" "digit_shape [] = []"
    by (simp_all add: digit_shape_def ascii_digit_def)
  have shape: "digit_shape (isoformat d) =
           (if microsecond d = 0 then ''9999-99-99T99:99:99''
            else ''9999-99-99T99:99:99.999999'')"
    unfolding iso by (simp add: app seps Y M D h m s f del: append.simps)
  have fields: "take 4 (isoformat d) = Y" "take 2 (drop 5 (isoformat d)) = M"
    "take 2 (drop 8 (isoformat d)) = D" "take 2 (drop 11 (isoformat d)) = h"
    "take 2 (drop 14 (isoformat d)) = m" "take 2 (drop 17 (isoformat d)) = s"
    unfolding iso by (simp_all add: Y M D h m s)
  have frac: "drop 20 (isoformat d) = f" if "microsecond d \<noteq> 0"
    unfolding iso using that by (simp add: Y M D h m s)
  show ?thesis
    using shape fields frac by (simp add: Y M D h m s f)
qed

lemma isoformat_examples:
  "isoformat (now quiet_env) = ''2024-05-17T09:30:00''"
  "isoformat (current_timestamp quiet_env) = ''2024-05-17T09:29:59.000250''"
  "map user_json two_users =
     [JObject [(''id'', JInt 1), (''name'', JString ''Ann''),
               (''email'', JString ''ann@example.org''),
               (''created_at'', JString ''2024-01-02T03:04:05'')],
      JObject [(''id'', JInt 2), (''name'', JString ''Bob''),
               (''email'', JString ''bob@example.org''), (''created_at'', JNull)]]"
  "take 100 two_users = two_users"
  by (code_simp, code_simp, code_simp, simp add: two_users_def)

subsection \<open>Listing users\<close>

text \<open>
  Claim C5. \<open>GET /users\<close> with a connection available and no store failure answers 200
  with the first 100 rows at most, \<open>count\<close> is the length of the list sent, and the
  user-count gauge ends at that count. In each object sent \<open>created_at\<close> is null when
  the row has no timestamp and otherwise the text \<open>isoformat\<close> makes of it, which for
  a timestamp of the class is the ISO 8601 form \<^verbatim>\<open>YYYY-MM-DDTHH:MM:SS\<close> with the
  row's own year, month, day, hour, minute and second, and with \<^verbatim>\<open>.ffffff\<close> appended
  when the microseconds are not zero.
\<close>

theorem list_users_capped:
  assumes "connection_pool s = Some p" "used p < maxconn p" "\<not> getconn_raises e"
    and "\<not> raises e Cursor" "\<not> raises e SelectAll"
  shows "\<exists>us. us = map user_json (take 100 (users s)) \<and> length us \<le> 100
     \<and> wfile (do_GET e ''/users'' s) =
         wfile s @ [(200, JObject [(''users'', JArray us), (''count'', JInt (int (length us))),
                      (''timestamp'', JString (isoformat (now e)))])]
     \<and> users_count (do_GET e ''/users'' s) = int (length us)
     \<and> list_all (\<lambda>r.
           case row_created_at r of
             None \<Rightarrow> py_getitem (user_json r) ''created_at'' = Inr JNull
           | Some d \<Rightarrow>
               py_getitem (user_json r) ''created_at'' = Inr (JString (isoformat d))
               \<and> (valid_datetime d \<longrightarrow>
                    digit_shape (isoformat d) =
                      (if microsecond d = 0 then ''9999-99-99T99:99:99''
                       else ''9999-99-99T99:99:99.999999'')
                    \<and> decimal_value (take 4 (isoformat d)) = int (year d)
                    \<and> decimal_value (take 2 (drop 5 (isoformat d))) = int (month d)
                    \<and> decimal_value (take 2 (drop 8 (isoformat d))) = int (day d)
                    \<and> decimal_value (take 2 (drop 11 (isoformat d))) = int (hour d)
                    \<and> decimal_value (take 2 (drop 14 (isoformat d))) = int (minute d)
                    \<and> decimal_value (take 2 (drop 17 (isoformat d))) = int (second d)
                    \<and> (microsecond d \<noteq> 0 \<longrightarrow>
                         decimal_value (drop 20 (isoformat d)) = int (microsecond d))))
         (take 100 (users s))"
proof -
  have resp: "wfile (do_GET e ''/users'' s) =
         wfile s @ [(200, JObject [(''users'', JArray (map user_json (take 100 (users s)))),
                      (''count'', JInt (int (length (map user_json (take 100 (users s)))))),
                      (''timestamp'', JString (isoformat (now e)))])]"
    "users_count (do_GET e ''/users'' s) = int (length (map user_json (take 100 (users s))))"
    using assms
    by (simp_all add: do_GET_def do_GET_try_def list_users_def select_all_def prim_defs Let_def)
  have field: "py_getitem (user_json r) ''created_at'' =
      Inr (case row_created_at r of None \<Rightarrow> JNull | Some d \<Rightarrow> JString (isoformat d))" for r
    by (simp add: user_json_def)
  have rows: "list_all (\<lambda>r.
           case row_created_at r of
             None \<Rightarrow> py_getitem (user_json r) ''created_at'' = Inr JNull
           | Some d \<Rightarrow>
               py_getitem (user_json r) ''created_at'' = Inr (JString (isoformat d))
               \<and> (valid_datetime d \<longrightarrow>
                    digit_shape (isoformat d) =
                      (if microsecond d = 0 then ''9999-99-99T99:99:99''
                       else ''9999-99-99T99:99:99.999999'')
                    \<and> decimal_value (take 4 (isoformat d)) = int (year d)
                    \<and> decimal_value (take 2 (drop 5 (isoformat d))) = int (month d)
                    \<and> decimal_value (take 2 (drop 8 (isoformat d))) = int (day d)
                    \<and> decimal_value (take 2 (drop 11 (isoformat d))) = int (hour d)
                    \<and> decimal_value (take 2 (drop 14 (isoformat d))) = int (minute d)
                    \<and> decimal_value (take 2 (drop 17 (isoformat d))) = int (second d)
                    \<and> (microsecond d \<noteq> 0 \<longrightarrow>
                         decimal_value (drop 20 (isoformat d)) = int (microsecond d)))) rs" for rs
    unfolding list_all_iff
  proof
    fix r assume "r \<in> set rs"
    show "case row_created_at r of
             None \<Rightarrow> py_getitem (user_json r) ''created_at'' = Inr JNull
           | Some d \<Rightarrow>
               py_getitem (user_json r) ''created_at'' = Inr (JString (isoformat d))
               \<and> (valid_datetime d \<longrightarrow>
                    digit_shape (isoformat d) =
                      (if microsecond d = 0 then ''9999-99-99T99:99:99''
                       else ''9999-99-99T99:99:99.999999'')
                    \<and> decimal_value (take 4 (isoformat d)) = int (year d)
                    \<and> decimal_value (take 2 (drop 5 (isoformat d))) = int (month d)
                    \<and> decimal_value (take 2 (drop 8 (isoformat d))) = int (day d)
                    \<and> decimal_value (take 2 (drop 11 (isoformat d))) = int (hour d)
                    \<and> decimal_value (take 2 (drop 14 (isoformat d))) = int (minute d)
                    \<and> decimal_value (take 2 (drop 17 (isoformat d))) = int (second d)
                    \<and> (microsecond d \<noteq> 0 \<longrightarrow>
                         decimal_value (drop 20 (isoformat d)) = int (microsecond d)))"
    proof (cases "row_created_at r")
      case None
      then show ?thesis using field[of r] by simp
    next
      case (Some d)
      then show ?thesis using field[of r] isoformat_iso8601[of d] by simp
    qed
  qed
  show ?thesis
    using resp rows[of "take 100 (users s)"] by simp
qed

theorem list_users_capped_witness:
  "wfile (do_GET quiet_env ''/users'' started) =
     [(200, JObject [(''users'', JArray
         [JObject [(''id'', JInt 1), (''name'', JString ''Ann''),
                   (''email'', JString ''ann@example.org''),
                   (''created_at'', JString ''2024-01-02T03:04:05'')],
          JObject [(''id'', JInt 2), (''name'', JString ''Bob''),
                   (''email'', JString ''bob@example.org''), (''created_at'', JNull)]]),
        (''count'', JInt 2), (''timestamp'', JString ''2024-05-17T09:30:00'')])]
   \<and> users_count (do_GET quiet_env ''/users'' started) = 2
   \<and> digit_shape ''2024-01-02T03:04:05'' = ''9999-99-99T99:99:99''"
  using list_users_capped [OF started_simps(1), of quiet_env]
  by (simp add: fixture_simps isoformat_examples digit_shape_def ascii_digit_def)

subsection \<open>Creating a user\<close>

lemma wfile_get_conn: "wfile (snd (get_db_connection e s)) = wfile s"
  by (auto simp: prim_defs split: sum.splits option.splits prod.splits if_splits)


lemma wfile_release: "wfile (release_db_connection c s) = wfile s"
  by (auto simp: prim_defs split: option.splits)


lemma wfile_send_error:
  "wfile (send_error m st s) = wfile s @ [(st, JObject [(''error'', JString m)])]"
  by (simp add: prim_defs)











subsection \<open>Validation of a create request\<close>

lemma create_user_no_400:
  "\<exists>rs. wfile (snd (create_user e d s)) = wfile s @ rs \<and> 400 \<notin> fst ` set rs"
  by (auto simp: create_user_def create_user_failed_def prim_defs Let_def
      split: sum.splits option.splits)

lemma missing_fields_object:
  "missing_fields (JObject kvs) = Inr (''name'' \<notin> fst ` set kvs \<or> ''email'' \<notin> fst ` set kvs)"
  by (auto simp: missing_fields_def List.member_iff split: bool.splits)

text \<open>
  What the checks of \<open>POST /users\<close> do when each value is of the kind the handler
  expects: a Content-Length of 0 answers 400 \<open>Empty request body\<close> whatever the body;
  otherwise a body on which \<^verbatim>\<open>json.loads\<close> raises JSONDecodeError answers 400
  \<open>Invalid JSON\<close>; otherwise a parsed object without the key \<open>name\<close> or without the
  key \<open>email\<close> answers 400 \<open>Name and email are required\<close>; a parsed object with both
  keys, whatever their values (empty strings included), is not answered with 400.
\<close>

lemma post_validation_cases:
  assumes "path r = ''/users''"
  shows "(content_length r = Inr 0 \<longrightarrow>
            fst (do_POST e r s) = None \<and>
            wfile (snd (do_POST e r s)) =
              wfile s @ [(400, JObject [(''error'', JString ''Empty request body'')])])
     \<and> (content_length r = Inr n \<and> n \<noteq> 0 \<and> body_json r = Inl JSONDecodeError \<longrightarrow>
            fst (do_POST e r s) = None \<and>
            wfile (snd (do_POST e r s)) =
              wfile s @ [(400, JObject [(''error'', JString ''Invalid JSON'')])])
     \<and> (content_length r = Inr n \<and> n \<noteq> 0 \<and> body_json r = Inr (JObject kvs)
          \<and> (''name'' \<notin> fst ` set kvs \<or> ''email'' \<notin> fst ` set kvs) \<longrightarrow>
            fst (do_POST e r s) = None \<and>
            wfile (snd (do_POST e r s)) =
              wfile s @ [(400, JObject [(''error'', JString ''Name and email are required'')])])
     \<and> (content_length r = Inr n \<and> n \<noteq> 0 \<and> body_json r = Inr (JObject kvs)
          \<and> ''name'' \<in> fst ` set kvs \<and> ''email'' \<in> fst ` set kvs \<longrightarrow>
            (\<exists>rs. wfile (snd (do_POST e r s)) = wfile s @ rs \<and> 400 \<notin> fst ` set rs))"
proof -
  have last_case: "\<exists>rs. wfile (snd (do_POST e r s)) = wfile s @ rs \<and> 400 \<notin> fst ` set rs"
    if h: "content_length r = Inr n" "n \<noteq> 0" "body_json r = Inr (JObject kvs)"
      "''name'' \<in> fst ` set kvs" "''email'' \<in> fst ` set kvs"
  proof (cases "fst (get_db_connection e s)")
    case None
    then show ?thesis
      using assms h
      by (simp add: do_POST_def do_POST_try_def missing_fields_object split_beta
          observe_latency_def wfile_send_error wfile_get_conn)
  next
    case (Some c)
    obtain rs where "wfile (snd (create_user e (JObject kvs) (snd (get_db_connection e s))))
        = wfile s @ rs" "400 \<notin> fst ` set rs"
      using create_user_no_400[of e "JObject kvs" "snd (get_db_connection e s)"]
      by (auto simp: wfile_get_conn)
    then show ?thesis
      using assms h Some
      by (simp add: do_POST_def do_POST_try_def missing_fields_object split_beta
          observe_latency_def wfile_release)
  qed
  show ?thesis
    using assms last_case
    by (auto simp: do_POST_def do_POST_try_def missing_fields_object observe_latency_def
        wfile_send_error)
qed

text \<open>Empty strings pass validation and the row is inserted.\<close>

lemma empty_strings_created:
  "map fst (wfile (snd (do_POST quiet_env
      \<lparr>path = ''/users'', content_length = Inr 24,
       body_json = Inr (JObject [(''name'', JString ''''), (''email'', JString '''')])\<rparr> started)))
     = [201]"
  by (simp add: do_POST_def do_POST_try_def missing_fields_def create_user_def
      select_by_email_def insert_user_def varchar100_def prim_defs fixture_simps two_users_def
      Let_def)

text \<open>
  Claim C4 at concrete requests to \<open>POST /users\<close> with a Content-Length that is not 0.
  A body that is not UTF-8 (one byte \<^verbatim>\<open>0xFF\<close>) does not parse as JSON:
  \<^verbatim>\<open>post_data.decode('utf-8')\<close> raises UnicodeDecodeError, which
  \<^verbatim>\<open>except json.JSONDecodeError\<close> does not catch; the exception leaves \<open>do_POST\<close>
  and no response is written, where the claim has 400 \<open>Invalid JSON\<close>. The body
  \<^verbatim>\<open>null\<close> parses and holds neither key: \<^verbatim>\<open>'name' not in data\<close> raises TypeError outside
  every \<^verbatim>\<open>try\<close> with a handler and no response is written, where the claim has 400
  \<open>Name and email are required\<close>. A Content-Length that is not a number raises
  ValueError in the same way.
\<close>

theorem invalid_body_no_response:
  "do_POST_try quiet_env
      \<lparr>path = ''/users'', content_length = Inr 1, body_json = Inl UnicodeDecodeError\<rparr> started
     = (Some UnicodeDecodeError, started)
   \<and> fst (do_POST quiet_env
      \<lparr>path = ''/users'', content_length = Inr 1, body_json = Inl UnicodeDecodeError\<rparr> started)
     = Some UnicodeDecodeError
   \<and> wfile (snd (do_POST quiet_env
      \<lparr>path = ''/users'', content_length = Inr 1, body_json = Inl UnicodeDecodeError\<rparr> started))
     = []
   \<and> fst (do_POST quiet_env
      \<lparr>path = ''/users'', content_length = Inr 4, body_json = Inr JNull\<rparr> started)
     = Some TypeError
   \<and> wfile (snd (do_POST quiet_env
      \<lparr>path = ''/users'', content_length = Inr 4, body_json = Inr JNull\<rparr> started))
     = []
   \<and> fst (do_POST quiet_env
      \<lparr>path = ''/users'', content_length = Inl ValueError, body_json = Inr (JObject [])\<rparr>
      started)
     = Some ValueError
   \<and> wfile (snd (do_POST quiet_env
      \<lparr>path = ''/users'', content_length = Inl ValueError, body_json = Inr (JObject [])\<rparr>
      started))
     = []"
  by (simp add: do_POST_def do_POST_try_def missing_fields_def observe_latency_def
      fixture_simps)

subsection \<open>Request counts\<close>

lemma count_get_conn: "request_count (snd (get_db_connection e s)) = request_count s"
  by (auto simp: prim_defs split: sum.splits option.splits prod.splits if_splits)

lemma count_release: "request_count (release_db_connection c s) = request_count s"
  by (auto simp: prim_defs split: option.splits)

lemma count_send_error: "request_count (send_error m st s) = request_count s"
  by (simp add: prim_defs)

lemma count_list_users: "request_count (list_users e s) = request_count s"
  by (auto simp: list_users_def list_users_failed_def select_all_def prim_defs Let_def
      split: sum.splits)

lemma count_get_user: "request_count (get_user e u s) = request_count s"
  by (auto simp: get_user_def get_user_failed_def select_by_id_def prim_defs
      split: sum.splits option.splits)

text \<open>
  \<open>do_GET\<close> increments one counter, and its labels are fixed by the route alone: the
  status label is the constant written in the branch, whatever is sent afterwards.
\<close>

lemma get_request_count:
  "request_count (do_GET e p s) =
     (request_count s)
       ((''GET'',
         if p = ''/health'' then (''/health'', ''200'')
         else if p = ''/users'' then (''/users'', ''200'')
         else if startswith p ''/users/'' then (''/users/{id}'', ''200'')
         else (''unknown'', ''404'')) :=
        request_count s
          (''GET'',
           if p = ''/health'' then (''/health'', ''200'')
           else if p = ''/users'' then (''/users'', ''200'')
           else if startswith p ''/users/'' then (''/users/{id}'', ''200'')
           else (''unknown'', ''404'')) + 1)"
proof -
  have obs: "request_count (observe_latency l v t) = request_count t" for l v t
    by (simp add: observe_latency_def)
  have inc: "request_count (inc_request_count m ep st t) =
      (request_count t)((m, ep, st) := request_count t (m, ep, st) + 1)" for m ep st t
    by (simp add: inc_request_count_def)
  show ?thesis
    unfolding do_GET_def do_GET_try_def obs health_def
    by (simp add: Let_def split_beta count_get_conn count_release count_send_error
        count_list_users count_get_user inc send_response_def split: option.splits)
qed

lemma create_user_count:
  "(\<exists>b. wfile (snd (create_user e d s)) = wfile s @ [(201, b)]
        \<and> request_count (snd (create_user e d s)) =
            (request_count s)((''POST'', ''/users'', ''201'') :=
               request_count s (''POST'', ''/users'', ''201'') + 1))
   \<or> (request_count (snd (create_user e d s)) = request_count s
       \<and> (\<forall>b. wfile (snd (create_user e d s)) \<noteq> wfile s @ [(201, b)]))"
  by (auto simp: create_user_def create_user_failed_def prim_defs Let_def
      split: sum.splits option.splits)

text \<open>
  \<open>POST /users\<close> increments a counter only on the path that sends 201; every other
  outcome (400, 409, 500, 503, an exception) leaves all request counters as they were.
\<close>

lemma post_request_count:
  assumes "path r = ''/users''"
  shows "(\<exists>b. wfile (snd (do_POST e r s)) = wfile s @ [(201, b)]
        \<and> request_count (snd (do_POST e r s)) =
            (request_count s)((''POST'', ''/users'', ''201'') :=
               request_count s (''POST'', ''/users'', ''201'') + 1))
   \<or> request_count (snd (do_POST e r s)) = request_count s"
proof -
  have obs: "request_count (observe_latency l v t) = request_count t"
    "wfile (observe_latency l v t) = wfile t" for l v t
    by (simp_all add: observe_latency_def)
  let ?s1 = "snd (get_db_connection e s)"
  have cu: "(\<exists>b. wfile (snd (create_user e d ?s1)) = wfile s @ [(201, b)]
        \<and> request_count (snd (create_user e d ?s1)) =
            (request_count s)((''POST'', ''/users'', ''201'') :=
               request_count s (''POST'', ''/users'', ''201'') + 1))
     \<or> request_count (snd (create_user e d ?s1)) = request_count s" for d
    using create_user_count[of e d ?s1] by (auto simp: wfile_get_conn count_get_conn)
  show ?thesis
  proof (cases "\<exists>n d c. content_length r = Inr n \<and> n \<noteq> 0 \<and> body_json r = Inr d
      \<and> missing_fields d = Inr False \<and> fst (get_db_connection e s) = Some c")
    case True
    then obtain n d c where h: "content_length r = Inr n" "n \<noteq> 0" "body_json r = Inr d"
      "missing_fields d = Inr False" "fst (get_db_connection e s) = Some c"
      by blast
    have eq: "snd (do_POST e r s) = observe_latency (path r) (end_time e - start_time e)
        (release_db_connection (Some c) (snd (create_user e d ?s1)))"
      using assms h by (simp add: do_POST_def do_POST_try_def split_beta)
    show ?thesis
      unfolding eq using cu[of d] by (simp add: obs count_release wfile_release)
  next
    case False
    then have "request_count (snd (do_POST e r s)) = request_count s"
      using assms
      by (auto simp: do_POST_def do_POST_try_def split_beta obs count_send_error count_get_conn
          split: sum.splits bool.splits option.splits)
    then show ?thesis
      by simp
  qed
qed

text \<open>
  Claim C1 at concrete requests. \<open>GET /users/999999\<close> on a table without that id is
  answered 404, and the counter incremented is the one labelled \<open>200\<close>; the one
  labelled \<open>404\<close> stays 0. \<open>POST /users\<close> with a Content-Length of 0 is answered
  400 and no request counter is incremented at all.
\<close>

theorem request_count_not_by_status:
  "wfile (do_GET quiet_env ''/users/999999'' started) =
     [(404, JObject [(''error'', JString ''User not found'')])]
   \<and> request_count (do_GET quiet_env ''/users/999999'' started)
       (''GET'', ''/users/{id}'', ''200'') = 1
   \<and> request_count (do_GET quiet_env ''/users/999999'' started)
       (''GET'', ''/users/{id}'', ''404'') = 0
   \<and> wfile (snd (do_POST quiet_env
        \<lparr>path = ''/users'', content_length = Inr 0, body_json = Inl JSONDecodeError\<rparr> started))
      = [(400, JObject [(''error'', JString ''Empty request body'')])]
   \<and> request_count (snd (do_POST quiet_env
        \<lparr>path = ''/users'', content_length = Inr 0, body_json = Inl JSONDecodeError\<rparr> started))
      = (\<lambda>k. 0)"
  by (simp add: do_GET_def do_GET_try_def do_POST_def do_POST_try_def startswith_def
      isdigit_def isdigit_char_def ascii_digit_def get_user_def py_int_def decimal_value_def
      select_by_id_def prim_defs fixture_simps two_users_def Let_def)

subsection \<open>Looking up a user\<close>

lemma startswith_users: "startswith p ''/users/'' \<Longrightarrow> p \<noteq> ''/health'' \<and> p \<noteq> ''/users''"
  by (auto simp: startswith_def)

lemma get_conn_inc:
  "fst (get_db_connection e (inc_request_count m ep st s)) = fst (get_db_connection e s)"
  "wfile (snd (get_db_connection e (inc_request_count m ep st s))) = wfile s"
  "users (snd (get_db_connection e (inc_request_count m ep st s))) = users s"
  by (auto simp: prim_defs split: sum.splits option.splits prod.splits if_splits)

lemma get_user_answers:
  assumes "\<not> raises e Cursor" "\<not> raises e SelectById"
    "py_int (int_max_str_digits e) seg = Inr i"
  shows "wfile (get_user e seg s) =
     wfile s @ [case find (\<lambda>r. row_id r = i) (users s) of
                  None \<Rightarrow> (404, JObject [(''error'', JString ''User not found'')])
                | Some r \<Rightarrow> (200, user_json r)]"
  using assms by (simp add: get_user_def select_by_id_def prim_defs split: option.splits)

lemma get_user_fails:
  assumes "raises e Cursor \<or> raises e SelectById
    \<or> py_int (int_max_str_digits e) seg = Inl err"
  shows "wfile (get_user e seg s) =
     wfile s @ [(500, JObject [(''error'', JString ''Internal server error'')])]"
  using assms
  by (auto simp: get_user_def get_user_failed_def select_by_id_def prim_defs
      split: sum.splits option.splits)

text \<open>
  The route \<open>/users/\<close>: the id is the last segment of the path. It is refused with 400
  when \<^verbatim>\<open>isdigit\<close> is false; without a connection the answer is 503; with one, and when
  \<^verbatim>\<open>int\<close> accepts the segment and the store does not fail, the answer is the row of
  that id (200) or 404; when the store fails, or \<^verbatim>\<open>int\<close> does not accept the segment,
  it is 500.
\<close>

lemma get_user_route:
  assumes "startswith p ''/users/''" and seg: "seg = last (split_on (CHR ''/'') p)"
  shows "(\<not> isdigit seg \<longrightarrow>
            wfile (do_GET e p s) =
              wfile s @ [(400, JObject [(''error'', JString ''Invalid user ID'')])])
     \<and> (isdigit seg \<and> fst (get_db_connection e s) = None \<longrightarrow>
            wfile (do_GET e p s) =
              wfile s @ [(503, JObject [(''error'', JString ''Database unavailable'')])])
     \<and> (isdigit seg \<and> fst (get_db_connection e s) = Some c \<and> \<not> raises e Cursor
          \<and> \<not> raises e SelectById \<and> py_int (int_max_str_digits e) seg = Inr i \<longrightarrow>
            wfile (do_GET e p s) =
              wfile s @ [case find (\<lambda>r. row_id r = i) (users s) of
                           None \<Rightarrow> (404, JObject [(''error'', JString ''User not found'')])
                         | Some r \<Rightarrow> (200, user_json r)])
     \<and> (isdigit seg \<and> fst (get_db_connection e s) = Some c
          \<and> (raises e Cursor \<or> raises e SelectById
              \<or> py_int (int_max_str_digits e) seg = Inl err) \<longrightarrow>
            wfile (do_GET e p s) =
              wfile s @ [(500, JObject [(''error'', JString ''Internal server error'')])])"
proof -
  let ?s1 = "inc_request_count ''GET'' ''/users/{id}'' ''200'' s"
  let ?s2 = "snd (get_db_connection e ?s1)"
  have obs: "wfile (observe_latency l v t) = wfile t" for l v t
    by (simp add: observe_latency_def)
  have w1: "wfile ?s1 = wfile s"
    by (simp add: inc_request_count_def)
  have try_eq: "do_GET_try e p s =
      (if \<not> isdigit seg then send_error ''Invalid user ID'' 400 ?s1
       else if fst (get_db_connection e s) = None
         then send_error ''Database unavailable'' 503 ?s2
       else release_db_connection (fst (get_db_connection e s)) (get_user e seg ?s2))"
    using assms(1) startswith_users[OF assms(1)] unfolding seg
    by (auto simp: do_GET_try_def Let_def split_beta get_conn_inc
        split: option.splits prod.splits)
  show ?thesis
    unfolding do_GET_def obs try_eq
    using get_user_answers[of e seg i ?s2] get_user_fails[of e seg err ?s2]
    by (auto simp: wfile_send_error wfile_release w1 get_conn_inc)
qed

text \<open>
  Claim C3 at a concrete request. The path \<open>/users/\<close> followed by the one character
  SUPERSCRIPT TWO (code point 178, the byte \<^verbatim>\<open>0xB2\<close> of the request line): \<^verbatim>\<open>isdigit\<close>
  is true of the segment, so the request is not refused with 400; then \<^verbatim>\<open>int\<close> raises
  ValueError inside the \<^verbatim>\<open>try\<close> block and the answer is 500, with a connection
  available and a store that does not fail.
\<close>

theorem superscript_id_internal_error:
  "isdigit [CHR 0xB2]
   \<and> py_int (int_max_str_digits quiet_env) [CHR 0xB2] = Inl ValueError
   \<and> wfile (do_GET quiet_env (''/users/'' @ [CHR 0xB2]) started) =
       [(500, JObject [(''error'', JString ''Internal server error'')])]"
  by (simp add: do_GET_def do_GET_try_def startswith_def isdigit_def isdigit_char_def
      ascii_digit_def get_user_def get_user_failed_def py_int_def prim_defs fixture_simps
      Let_def)

text \<open>The last segment decides, not the one after \<open>/users/\<close>.\<close>

lemma last_segment_examples:
  "wfile (do_GET quiet_env ''/users/abc/2'' started) =
     [(200, JObject [(''id'', JInt 2), (''name'', JString ''Bob''),
                     (''email'', JString ''bob@example.org''), (''created_at'', JNull)])]"
  "wfile (do_GET quiet_env ''/users/2/abc'' started) =
     [(400, JObject [(''error'', JString ''Invalid user ID'')])]"
  "wfile (do_GET quiet_env ''/users/'' started) =
     [(400, JObject [(''error'', JString ''Invalid user ID'')])]"
  "wfile (do_GET quiet_env ''/users/7/'' started) =
     [(400, JObject [(''error'', JString ''Invalid user ID'')])]"
  by (simp_all add: do_GET_def do_GET_try_def startswith_def isdigit_def isdigit_char_def
      ascii_digit_def get_user_def py_int_def decimal_value_def select_by_id_def user_json_def
      prim_defs fixture_simps two_users_def Let_def)

text \<open>
  Claim C10 at a concrete request. The last segment of \<open>/users/abc/\<close> followed by
  SUPERSCRIPT ONE (code point 185) passes \<^verbatim>\<open>isdigit\<close>, is no decimal numeral, and the
  request is answered 500: neither a lookup of an id nor 400.
\<close>

theorem last_segment_superscript_internal_error:
  "last (split_on (CHR ''/'') (''/users/abc/'' @ [CHR 0xB9])) = [CHR 0xB9]
   \<and> isdigit [CHR 0xB9]
   \<and> wfile (do_GET quiet_env (''/users/abc/'' @ [CHR 0xB9]) started) =
       [(500, JObject [(''error'', JString ''Internal server error'')])]"
  by (simp add: do_GET_def do_GET_try_def startswith_def isdigit_def isdigit_char_def
      ascii_digit_def get_user_def get_user_failed_def py_int_def prim_defs fixture_simps
      Let_def)

subsection \<open>Start-up\<close>













end
